theory Spec2Isabelle
  imports Main
begin

section \<open>JavaScript values\<close>

text \<open>
  The management client (\<^verbatim>\<open>sdk/script/management/account-manager.ts\<close>) handles the
  values that \<^verbatim>\<open>JSON.parse\<close> produces, plus \<^verbatim>\<open>undefined\<close>. An object is an association
  list in insertion order, with one binding per key. Numbers are taken as integers: the
  client only tests a number for being zero and copies the response status.
\<close>

datatype jsval =
    JUndefined
  | JNull
  | JBool bool
  | JNum int
  | JStr string
  | JArr "jsval list"
  | JObj "(string \<times> jsval) list"

text \<open>The test \<^verbatim>\<open>if (v)\<close>.\<close>

fun truthy :: "jsval \<Rightarrow> bool" where
  "truthy JUndefined = False"
| "truthy JNull = False"
| "truthy (JBool b) = b"
| "truthy (JNum n) = (n \<noteq> 0)"
| "truthy (JStr s) = (s \<noteq> [])"
| "truthy (JArr xs) = True"
| "truthy (JObj fs) = True"

text \<open>
  The property read \<^verbatim>\<open>v.k\<close> on a truthy value, for the keys the client reads (none of
  them is a property of a string, number, boolean or array prototype): the field of an
  object, \<^verbatim>\<open>undefined\<close> when the object has no such field or the value is no object.
\<close>

fun get_prop :: "jsval \<Rightarrow> string \<Rightarrow> jsval" where
  "get_prop (JObj fs) k = (case map_of fs k of Some v \<Rightarrow> v | None \<Rightarrow> JUndefined)"
| "get_prop v k = JUndefined"

text \<open>The assignment \<^verbatim>\<open>o.k = v\<close>: an existing key keeps its place, a new one goes last.\<close>

fun set_prop :: "string \<Rightarrow> jsval \<Rightarrow> (string \<times> jsval) list \<Rightarrow> (string \<times> jsval) list" where
  "set_prop k v [] = [(k, v)]"
| "set_prop k v (p # ps) = (if fst p = k then (k, v) # ps else p # set_prop k v ps)"

text \<open>An optional string parameter (\<^verbatim>\<open>description?: string\<close>).\<close>

fun opt_str :: "string option \<Rightarrow> jsval" where
  "opt_str None = JUndefined"
| "opt_str (Some s) = JStr s"

text \<open>
  \<^verbatim>\<open>s.lastIndexOf(c)\<close> for a one-character search string: the index of the last
  occurrence, \<open>-1\<close> when there is none.
\<close>

fun lastIndexOf :: "string \<Rightarrow> char \<Rightarrow> int" where
  "lastIndexOf [] c = -1"
| "lastIndexOf (x # xs) c =
     (let r = lastIndexOf xs c
      in if r \<noteq> -1 then r + 1 else if x = c then 0 else -1)"

text \<open>\<^verbatim>\<open>s.substr(start)\<close>: a negative start counts from the end of the string.\<close>

definition substr :: "string \<Rightarrow> int \<Rightarrow> string" where
  "substr s start =
     (if start < 0 then drop (nat (int (length s) + start)) s else drop (nat start) s)"

text \<open>A text between double quotes.\<close>

definition quoted :: "string \<Rightarrow> string" where
  "quoted s = [CHR 0x22] @ s @ [CHR 0x22]"

section \<open>Completion of a request\<close>

text \<open>
  The callback given to \<^verbatim>\<open>req.end\<close> receives \<^verbatim>\<open>(err, res)\<close>; either may be missing.
  Of the error the client reads \<^verbatim>\<open>status\<close> (which may be undefined) and \<^verbatim>\<open>message\<close>; of
  the response the flag \<^verbatim>\<open>ok\<close>, \<^verbatim>\<open>status\<close>, \<^verbatim>\<open>text\<close> and \<^verbatim>\<open>header\<close>.
\<close>

record error =
  err_status :: "int option"
  err_message :: string

record response =
  res_ok :: bool
  res_status :: int
  res_text :: string
  res_header :: "(string \<times> string) list"

text \<open>
  What a callback did with the deferred: the calls of \<^verbatim>\<open>resolve\<close> and \<^verbatim>\<open>reject\<close> it
  made, in order, and whether it ended by throwing (a \<^verbatim>\<open>TypeError\<close>, from reading a
  property of a response that is undefined).
\<close>

datatype settle = Resolve jsval | Reject jsval

record outcome =
  calls :: "settle list"
  threw :: bool

definition resolve :: "jsval \<Rightarrow> outcome" where
  "resolve v = \<lparr>calls = [Resolve v], threw = False\<rparr>"

definition reject :: "jsval \<Rightarrow> outcome" where
  "reject v = \<lparr>calls = [Reject v], threw = False\<rparr>"

definition no_call :: outcome where
  "no_call = \<lparr>calls = [], threw = False\<rparr>"

definition type_error :: outcome where
  "type_error = \<lparr>calls = [], threw = True\<rparr>"

text \<open>The two shapes of \<^verbatim>\<open>CodePushError\<close> that the client builds itself.\<close>

definition error_message :: "string \<Rightarrow> jsval" where
  "error_message m = JObj [(''message'', JStr m)]"

definition error_status :: "string \<Rightarrow> int \<Rightarrow> jsval" where
  "error_status m s = JObj [(''message'', JStr m), (''statusCode'', JNum s)]"

text \<open>\<^verbatim>\<open>getErrorMessage\<close>: \<^verbatim>\<open>response && response.text ? response.text : error.message\<close>.\<close>

definition getErrorMessage :: "error \<Rightarrow> response option \<Rightarrow> string" where
  "getErrorMessage e response =
     (case response of
        None \<Rightarrow> err_message e
      | Some r \<Rightarrow> if res_text r \<noteq> [] then res_text r else err_message e)"

text \<open>
  The branch for a response that is not ok, the same in every operation that has it:
  \<^verbatim>\<open>var body = tryJSON(res.text); if (body) reject(body); else reject({message: res.text, statusCode: res.status})\<close>.
  \<^verbatim>\<open>tryJSON\<close> is the package \<^verbatim>\<open>try-json\<close>, a parameter here: the parsed value, or
  \<^verbatim>\<open>undefined\<close> when the text is not JSON.
\<close>

definition reject_not_ok :: "(string \<Rightarrow> jsval) \<Rightarrow> response \<Rightarrow> outcome" where
  "reject_not_ok tryJSON r =
     (let body = tryJSON (res_text r)
      in if truthy body then reject body
         else reject (error_status (res_text r) (res_status r)))"

text \<open>
  The body of the callback of the operations that parse the body first and resolve with
  one of its fields:
  \<^verbatim>\<open>var body = tryJSON(res.text); if (res.ok) { if (body) resolve(body.k); else reject({message: "Could not parse response: " + res.text, statusCode: res.status}) } else { ... }\<close>.
\<close>

definition resolve_field :: "(string \<Rightarrow> jsval) \<Rightarrow> string \<Rightarrow> response \<Rightarrow> outcome" where
  "resolve_field tryJSON k r =
     (let body = tryJSON (res_text r)
      in if res_ok r then
           (if truthy body then resolve (get_prop body k)
            else reject (error_status (''Could not parse response: '' @ res_text r) (res_status r)))
         else
           (if truthy body then reject body
            else reject (error_status (res_text r) (res_status r))))"

text \<open>
  The callback of the operations that resolve \<^verbatim>\<open>null\<close> on success:
  \<^verbatim>\<open>if (err) { reject({message: this.getErrorMessage(err, res)}); return; } if (res.ok) resolve(null); else ...\<close>.
\<close>

definition resolve_null :: "(string \<Rightarrow> jsval) \<Rightarrow> error option \<Rightarrow> response option \<Rightarrow> outcome" where
  "resolve_null tryJSON err res =
     (case err of
        Some e \<Rightarrow> reject (error_message (getErrorMessage e res))
      | None \<Rightarrow>
          (case res of
             None \<Rightarrow> type_error
           | Some r \<Rightarrow> if res_ok r then resolve JNull else reject_not_ok tryJSON r))"

text \<open>The callback of the operations that resolve with the field \<open>k\<close> of the parsed body.\<close>

definition resolve_parsed :: "(string \<Rightarrow> jsval) \<Rightarrow> string \<Rightarrow> error option \<Rightarrow> response option \<Rightarrow> outcome" where
  "resolve_parsed tryJSON k err res =
     (case err of
        Some e \<Rightarrow> reject (error_message (getErrorMessage e res))
      | None \<Rightarrow>
          (case res of
             None \<Rightarrow> type_error
           | Some r \<Rightarrow> resolve_field tryJSON k r))"

text \<open>
  The callback of the operations that create a resource from the \<^verbatim>\<open>Location\<close> header:
  \<^verbatim>\<open>var location = res.header["location"]; if (location && location.lastIndexOf("/") !== -1) { resource.id = location.substr(location.lastIndexOf("/") + 1); resolve(resource); } else { resolve(null); }\<close>.
\<close>

definition resolve_created :: "(string \<Rightarrow> jsval) \<Rightarrow> (string \<times> jsval) list \<Rightarrow> error option \<Rightarrow> response option \<Rightarrow> outcome" where
  "resolve_created tryJSON resource err res =
     (case err of
        Some e \<Rightarrow> reject (error_message (getErrorMessage e res))
      | None \<Rightarrow>
          (case res of
             None \<Rightarrow> type_error
           | Some r \<Rightarrow>
               if res_ok r then
                 (case map_of (res_header r) ''location'' of
                    None \<Rightarrow> resolve JNull
                  | Some location \<Rightarrow>
                      if location \<noteq> [] \<and> lastIndexOf location CHR ''/'' \<noteq> -1
                      then resolve (JObj (set_prop ''id''
                             (JStr (substr location (lastIndexOf location CHR ''/'' + 1))) resource))
                      else resolve JNull)
               else reject_not_ok tryJSON r))"

section \<open>The client and its session\<close>

text \<open>
  An agent made by \<^verbatim>\<open>request.agent()\<close> keeps the cookies of the responses given to its
  \<^verbatim>\<open>saveCookies\<close>; the model keeps those responses.
\<close>

record agent =
  cookies_from :: "response list"

definition new_agent :: agent where
  "new_agent = \<lparr>cookies_from = []\<rparr>"

definition saveCookies :: "agent \<Rightarrow> response \<Rightarrow> agent" where
  "saveCookies a r = a\<lparr>cookies_from := cookies_from a @ [r]\<rparr>"

text \<open>
  The fields of \<^verbatim>\<open>AccountManager\<close>. \<^verbatim>\<open>_authedAgent\<close> is undefined or null when it is
  \<open>None\<close>; \<^verbatim>\<open>_saveAuthedAgent\<close> is true outside a browser.
\<close>

record client =
  authedAgent :: "agent option"
  saveAuthedAgent :: bool
  account :: jsval
  serverUrl :: string

subsection \<open>loginWithAccessToken\<close>

datatype credentials = NoCredentials | Cookies agent | WithCredentials

record request =
  req_method :: string
  req_url :: string
  req_credentials :: credentials
  req_form :: "(string \<times> jsval) list"

text \<open>
  \<^verbatim>\<open>attachCredentials\<close>. The requester is an agent or the module \<^verbatim>\<open>superagent\<close> itself
  (\<open>None\<close>), which has no \<^verbatim>\<open>attachCookies\<close>.
\<close>

definition attachCredentials :: "client \<Rightarrow> agent option \<Rightarrow> credentials" where
  "attachCredentials this requester =
     (if saveAuthedAgent this then
        (case requester of Some a \<Rightarrow> Cookies a | None \<Rightarrow> NoCredentials)
      else WithCredentials)"

text \<open>
  \<^verbatim>\<open>getLoginInfo\<close>: \<^verbatim>\<open>tryJSON(base64.decode(accessKey))\<close>. \<^verbatim>\<open>base64.decode\<close> (package
  \<^verbatim>\<open>base-64\<close>) is a parameter; it throws on a text that is not base64, which is \<open>None\<close>.
\<close>

definition getLoginInfo :: "(string \<Rightarrow> string option) \<Rightarrow> (string \<Rightarrow> jsval) \<Rightarrow> string \<Rightarrow> jsval option" where
  "getLoginInfo decode tryJSON accessKey =
     (case decode accessKey of None \<Rightarrow> None | Some decoded \<Rightarrow> Some (tryJSON decoded))"

text \<open>
  What the function given to \<^verbatim>\<open>Promise\<close> does before any completion: it settles the
  deferred at once, sends a request, or throws.
\<close>

datatype started = Settled settle | Sent request | Thrown

definition loginWithAccessToken ::
  "(string \<Rightarrow> string option) \<Rightarrow> (string \<Rightarrow> jsval) \<Rightarrow> (jsval \<Rightarrow> string) \<Rightarrow> client \<Rightarrow> string \<Rightarrow> started" where
  "loginWithAccessToken decode tryJSON stringify this accessToken =
     (case getLoginInfo decode tryJSON accessToken of
        None \<Rightarrow> Thrown
      | Some loginInfo \<Rightarrow>
          if \<not> truthy loginInfo \<or> \<not> truthy (get_prop loginInfo ''providerName'')
             \<or> \<not> truthy (get_prop loginInfo ''providerUniqueId'')
          then Settled (Reject (error_message ''Invalid access key.''))
          else Sent \<lparr>req_method = ''POST'',
                     req_url = serverUrl this @ ''/auth/login/accessToken'',
                     req_credentials = attachCredentials this None,
                     req_form =
                       [(''identity'', JStr (stringify (JObj
                           [(''providerName'', get_prop loginInfo ''providerName''),
                            (''providerUniqueId'', get_prop loginInfo ''providerUniqueId'')]))),
                        (''token'', get_prop loginInfo ''accessKeyName'')]\<rparr>)"

text \<open>The callback of \<^verbatim>\<open>loginWithAccessToken\<close>.\<close>

definition loginWithAccessToken_end ::
  "(string \<Rightarrow> jsval) \<Rightarrow> client \<Rightarrow> error option \<Rightarrow> response option \<Rightarrow> client \<times> outcome" where
  "loginWithAccessToken_end tryJSON this err res =
     (case err of
        Some e \<Rightarrow> (this, reject (error_message (getErrorMessage e res)))
      | None \<Rightarrow>
          (case res of
             None \<Rightarrow>
               (if saveAuthedAgent this then this\<lparr>authedAgent := Some new_agent\<rparr> else this,
                type_error)
           | Some r \<Rightarrow>
               (if saveAuthedAgent this
                then this\<lparr>authedAgent := Some (saveCookies new_agent r)\<rparr> else this,
                if res_ok r then resolve JNull else reject_not_ok tryJSON r)))"

subsection \<open>logout\<close>

text \<open>The callback of \<^verbatim>\<open>logout\<close> after its test \<^verbatim>\<open>err && err.status !== 401\<close>.\<close>

definition logout_rest :: "(string \<Rightarrow> jsval) \<Rightarrow> client \<Rightarrow> response option \<Rightarrow> client \<times> outcome" where
  "logout_rest tryJSON this res =
     (this\<lparr>authedAgent := None\<rparr>,
      case res of
        None \<Rightarrow> type_error
      | Some r \<Rightarrow> if res_ok r then resolve JNull else reject_not_ok tryJSON r)"

definition logout_end ::
  "(string \<Rightarrow> jsval) \<Rightarrow> client \<Rightarrow> error option \<Rightarrow> response option \<Rightarrow> client \<times> outcome" where
  "logout_end tryJSON this err res =
     (case err of
        Some e \<Rightarrow>
          if err_status e \<noteq> Some 401
          then (this, reject (error_message (getErrorMessage e res)))
          else logout_rest tryJSON this res
      | None \<Rightarrow> logout_rest tryJSON this res)"

subsection \<open>isAuthenticated\<close>

text \<open>
  The callback of \<^verbatim>\<open>isAuthenticated\<close> from \<^verbatim>\<open>var authenticated = status === 200\<close> on;
  the status is \<open>None\<close> when it is read from an error that has none.
\<close>

definition isAuthenticated_rest :: "client \<Rightarrow> int option \<Rightarrow> response option \<Rightarrow> client \<times> outcome" where
  "isAuthenticated_rest this status res =
     (let authenticated = (status = Some 200)
      in if authenticated \<and> saveAuthedAgent this then
           (case res of
              None \<Rightarrow> (this\<lparr>authedAgent := Some new_agent\<rparr>, type_error)
            | Some r \<Rightarrow>
                (this\<lparr>authedAgent := Some (saveCookies new_agent r)\<rparr>,
                 resolve (JBool authenticated)))
         else (this, resolve (JBool authenticated)))"

text \<open>\<^verbatim>\<open>var status = res ? res.status : err.status\<close>.\<close>

definition isAuthenticated_end :: "client \<Rightarrow> error option \<Rightarrow> response option \<Rightarrow> client \<times> outcome" where
  "isAuthenticated_end this err res =
     (case err of
        Some e \<Rightarrow>
          if err_status e \<noteq> Some 401
          then (this, reject (error_message (getErrorMessage e res)))
          else isAuthenticated_rest this
                 (case res of Some r \<Rightarrow> Some (res_status r) | None \<Rightarrow> err_status e) res
      | None \<Rightarrow>
          (case res of
             None \<Rightarrow> (this, type_error)
           | Some r \<Rightarrow> isAuthenticated_rest this (Some (res_status r)) res))"

subsection \<open>Access keys, account, apps, deployments, deployment keys, packages\<close>

text \<open>
  Each definition is the callback that the operation of that name gives to
  \<^verbatim>\<open>req.end\<close>. The name of a new access key is \<^verbatim>\<open>uuid.v4()\<close>, a parameter.
\<close>

definition addAccessKey_end ::
  "(string \<Rightarrow> jsval) \<Rightarrow> string \<Rightarrow> string option \<Rightarrow> error option \<Rightarrow> response option \<Rightarrow> outcome" where
  "addAccessKey_end tryJSON uuid description err res =
     resolve_created tryJSON
       [(''id'', JNull), (''name'', JStr uuid), (''description'', opt_str description)] err res"

definition getAccessKey_end :: "(string \<Rightarrow> jsval) \<Rightarrow> error option \<Rightarrow> response option \<Rightarrow> outcome" where
  "getAccessKey_end tryJSON err res = resolve_parsed tryJSON ''accessKey'' err res"

definition getAccessKeys_end :: "(string \<Rightarrow> jsval) \<Rightarrow> error option \<Rightarrow> response option \<Rightarrow> outcome" where
  "getAccessKeys_end tryJSON err res = resolve_parsed tryJSON ''accessKeys'' err res"

definition removeAccessKey_end :: "(string \<Rightarrow> jsval) \<Rightarrow> error option \<Rightarrow> response option \<Rightarrow> outcome" where
  "removeAccessKey_end tryJSON err res = resolve_null tryJSON err res"

text \<open>\<^verbatim>\<open>getAccountInfo\<close> also stores the account: \<^verbatim>\<open>this.account = body.account\<close>.\<close>

definition getAccountInfo_end ::
  "(string \<Rightarrow> jsval) \<Rightarrow> client \<Rightarrow> error option \<Rightarrow> response option \<Rightarrow> client \<times> outcome" where
  "getAccountInfo_end tryJSON this err res =
     (case err of
        Some e \<Rightarrow> (this, reject (error_message (getErrorMessage e res)))
      | None \<Rightarrow>
          (case res of
             None \<Rightarrow> (this, type_error)
           | Some r \<Rightarrow>
               (let body = tryJSON (res_text r)
                in if res_ok r then
                     (if truthy body
                      then (this\<lparr>account := get_prop body ''account''\<rparr>,
                            resolve (get_prop body ''account''))
                      else (this, reject (error_status
                              (''Could not parse response: '' @ res_text r) (res_status r))))
                   else
                     (if truthy body then (this, reject body)
                      else (this, reject (error_status (res_text r) (res_status r)))))))"

definition updateAccountInfo_end :: "(string \<Rightarrow> jsval) \<Rightarrow> error option \<Rightarrow> response option \<Rightarrow> outcome" where
  "updateAccountInfo_end tryJSON err res = resolve_null tryJSON err res"

definition getApps_end :: "(string \<Rightarrow> jsval) \<Rightarrow> error option \<Rightarrow> response option \<Rightarrow> outcome" where
  "getApps_end tryJSON err res = resolve_parsed tryJSON ''apps'' err res"

definition getApp_end :: "(string \<Rightarrow> jsval) \<Rightarrow> error option \<Rightarrow> response option \<Rightarrow> outcome" where
  "getApp_end tryJSON err res = resolve_parsed tryJSON ''app'' err res"

definition addApp_end ::
  "(string \<Rightarrow> jsval) \<Rightarrow> string \<Rightarrow> string option \<Rightarrow> error option \<Rightarrow> response option \<Rightarrow> outcome" where
  "addApp_end tryJSON appName description err res =
     resolve_created tryJSON
       [(''name'', JStr appName), (''description'', opt_str description)] err res"

definition removeApp_end :: "(string \<Rightarrow> jsval) \<Rightarrow> error option \<Rightarrow> response option \<Rightarrow> outcome" where
  "removeApp_end tryJSON err res = resolve_null tryJSON err res"

definition updateApp_end :: "(string \<Rightarrow> jsval) \<Rightarrow> error option \<Rightarrow> response option \<Rightarrow> outcome" where
  "updateApp_end tryJSON err res = resolve_null tryJSON err res"

definition addDeployment_end ::
  "(string \<Rightarrow> jsval) \<Rightarrow> string \<Rightarrow> string option \<Rightarrow> error option \<Rightarrow> response option \<Rightarrow> outcome" where
  "addDeployment_end tryJSON name description err res =
     resolve_created tryJSON
       [(''name'', JStr name), (''description'', opt_str description)] err res"

definition getDeployments_end :: "(string \<Rightarrow> jsval) \<Rightarrow> error option \<Rightarrow> response option \<Rightarrow> outcome" where
  "getDeployments_end tryJSON err res = resolve_parsed tryJSON ''deployments'' err res"

definition getDeployment_end :: "(string \<Rightarrow> jsval) \<Rightarrow> error option \<Rightarrow> response option \<Rightarrow> outcome" where
  "getDeployment_end tryJSON err res = resolve_parsed tryJSON ''deployment'' err res"

definition updateDeployment_end :: "(string \<Rightarrow> jsval) \<Rightarrow> error option \<Rightarrow> response option \<Rightarrow> outcome" where
  "updateDeployment_end tryJSON err res = resolve_null tryJSON err res"

definition removeDeployment_end :: "(string \<Rightarrow> jsval) \<Rightarrow> error option \<Rightarrow> response option \<Rightarrow> outcome" where
  "removeDeployment_end tryJSON err res = resolve_null tryJSON err res"

text \<open>
  \<^verbatim>\<open>addDeploymentKey\<close> tests \<^verbatim>\<open>res.ok\<close> twice: the outer \<^verbatim>\<open>if (res.ok)\<close> has no
  \<^verbatim>\<open>else\<close>, and inside it stands the whole body of a callback that parses the response.
\<close>

definition addDeploymentKey_end :: "(string \<Rightarrow> jsval) \<Rightarrow> error option \<Rightarrow> response option \<Rightarrow> outcome" where
  "addDeploymentKey_end tryJSON err res =
     (case err of
        Some e \<Rightarrow> reject (error_message (getErrorMessage e res))
      | None \<Rightarrow>
          (case res of
             None \<Rightarrow> type_error
           | Some r \<Rightarrow>
               if res_ok r then resolve_field tryJSON ''deploymentKey'' r
               else no_call))"

definition getDeploymentKeys_end :: "(string \<Rightarrow> jsval) \<Rightarrow> error option \<Rightarrow> response option \<Rightarrow> outcome" where
  "getDeploymentKeys_end tryJSON err res = resolve_parsed tryJSON ''deploymentKeys'' err res"

definition getDeploymentKey_end :: "(string \<Rightarrow> jsval) \<Rightarrow> error option \<Rightarrow> response option \<Rightarrow> outcome" where
  "getDeploymentKey_end tryJSON err res = resolve_parsed tryJSON ''deploymentKey'' err res"

definition updateDeploymentKey_end :: "(string \<Rightarrow> jsval) \<Rightarrow> error option \<Rightarrow> response option \<Rightarrow> outcome" where
  "updateDeploymentKey_end tryJSON err res = resolve_null tryJSON err res"

definition deleteDeploymentKey_end :: "(string \<Rightarrow> jsval) \<Rightarrow> error option \<Rightarrow> response option \<Rightarrow> outcome" where
  "deleteDeploymentKey_end tryJSON err res = resolve_null tryJSON err res"

definition addPackage_end :: "(string \<Rightarrow> jsval) \<Rightarrow> error option \<Rightarrow> response option \<Rightarrow> outcome" where
  "addPackage_end tryJSON err res = resolve_null tryJSON err res"

definition getPackage_end :: "(string \<Rightarrow> jsval) \<Rightarrow> error option \<Rightarrow> response option \<Rightarrow> outcome" where
  "getPackage_end tryJSON err res = resolve_parsed tryJSON ''package'' err res"

subsection \<open>All operations\<close>

text \<open>
  The operations of the client, with the parameters that their callbacks use, and the
  callback of each on the client's state.
\<close>

datatype operation =
    LoginWithAccessToken
  | Logout
  | IsAuthenticated
  | AddAccessKey string "string option"
  | GetAccessKey
  | GetAccessKeys
  | RemoveAccessKey
  | GetAccountInfo
  | UpdateAccountInfo
  | GetApps
  | GetApp
  | AddApp string "string option"
  | RemoveApp
  | UpdateApp
  | AddDeployment string "string option"
  | GetDeployments
  | GetDeployment
  | UpdateDeployment
  | RemoveDeployment
  | AddDeploymentKey
  | GetDeploymentKeys
  | GetDeploymentKey
  | UpdateDeploymentKey
  | DeleteDeploymentKey
  | AddPackage
  | GetPackage

fun complete ::
  "(string \<Rightarrow> jsval) \<Rightarrow> operation \<Rightarrow> client \<Rightarrow> error option \<Rightarrow> response option \<Rightarrow> client \<times> outcome" where
  "complete tryJSON LoginWithAccessToken this err res = loginWithAccessToken_end tryJSON this err res"
| "complete tryJSON Logout this err res = logout_end tryJSON this err res"
| "complete tryJSON IsAuthenticated this err res = isAuthenticated_end this err res"
| "complete tryJSON (AddAccessKey uuid description) this err res =
     (this, addAccessKey_end tryJSON uuid description err res)"
| "complete tryJSON GetAccessKey this err res = (this, getAccessKey_end tryJSON err res)"
| "complete tryJSON GetAccessKeys this err res = (this, getAccessKeys_end tryJSON err res)"
| "complete tryJSON RemoveAccessKey this err res = (this, removeAccessKey_end tryJSON err res)"
| "complete tryJSON GetAccountInfo this err res = getAccountInfo_end tryJSON this err res"
| "complete tryJSON UpdateAccountInfo this err res = (this, updateAccountInfo_end tryJSON err res)"
| "complete tryJSON GetApps this err res = (this, getApps_end tryJSON err res)"
| "complete tryJSON GetApp this err res = (this, getApp_end tryJSON err res)"
| "complete tryJSON (AddApp appName description) this err res =
     (this, addApp_end tryJSON appName description err res)"
| "complete tryJSON RemoveApp this err res = (this, removeApp_end tryJSON err res)"
| "complete tryJSON UpdateApp this err res = (this, updateApp_end tryJSON err res)"
| "complete tryJSON (AddDeployment name description) this err res =
     (this, addDeployment_end tryJSON name description err res)"
| "complete tryJSON GetDeployments this err res = (this, getDeployments_end tryJSON err res)"
| "complete tryJSON GetDeployment this err res = (this, getDeployment_end tryJSON err res)"
| "complete tryJSON UpdateDeployment this err res = (this, updateDeployment_end tryJSON err res)"
| "complete tryJSON RemoveDeployment this err res = (this, removeDeployment_end tryJSON err res)"
| "complete tryJSON AddDeploymentKey this err res = (this, addDeploymentKey_end tryJSON err res)"
| "complete tryJSON GetDeploymentKeys this err res = (this, getDeploymentKeys_end tryJSON err res)"
| "complete tryJSON GetDeploymentKey this err res = (this, getDeploymentKey_end tryJSON err res)"
| "complete tryJSON UpdateDeploymentKey this err res = (this, updateDeploymentKey_end tryJSON err res)"
| "complete tryJSON DeleteDeploymentKey this err res = (this, deleteDeploymentKey_end tryJSON err res)"
| "complete tryJSON AddPackage this err res = (this, addPackage_end tryJSON err res)"
| "complete tryJSON GetPackage this err res = (this, getPackage_end tryJSON err res)"

text \<open>The operations whose callback parses the body of a successful response.\<close>

fun parses_success_body :: "operation \<Rightarrow> bool" where
  "parses_success_body GetAccessKey = True"
| "parses_success_body GetAccessKeys = True"
| "parses_success_body GetAccountInfo = True"
| "parses_success_body GetApps = True"
| "parses_success_body GetApp = True"
| "parses_success_body GetDeployments = True"
| "parses_success_body GetDeployment = True"
| "parses_success_body AddDeploymentKey = True"
| "parses_success_body GetDeploymentKeys = True"
| "parses_success_body GetDeploymentKey = True"
| "parses_success_body GetPackage = True"
| "parses_success_body _ = False"

section \<open>What the specification says in its own words\<close>

text \<open>
  The trailing path segment of a \<^verbatim>\<open>Location\<close> header: the substring after the last
  \<^verbatim>\<open>/\<close>, when the header has one.
\<close>

definition trailing_segment :: "string \<Rightarrow> string option" where
  "trailing_segment location =
     (if CHR ''/'' \<in> set location
      then Some (rev (takeWhile (\<lambda>c. c \<noteq> CHR ''/'') (rev location)))
      else None)"

text \<open>
  What a create operation resolves with on a successful response, in the words of the
  specification: the resource with the trailing segment as its id, \<^verbatim>\<open>null\<close> when the
  header is absent or has no \<^verbatim>\<open>/\<close>.
\<close>

definition created_resource :: "(string \<times> jsval) list \<Rightarrow> response \<Rightarrow> jsval" where
  "created_resource resource r =
     (case map_of (res_header r) ''location'' of
        None \<Rightarrow> JNull
      | Some location \<Rightarrow>
          (case trailing_segment location of
             None \<Rightarrow> JNull
           | Some seg \<Rightarrow> JObj (set_prop ''id'' (JStr seg) resource)))"

text \<open>
  The status of a completion, as \<^verbatim>\<open>isAuthenticated\<close> takes it: that of the response
  when there is one, else that of the transport error.
\<close>

definition reported_status :: "error option \<Rightarrow> response option \<Rightarrow> int option" where
  "reported_status err res =
     (case res of
        Some r \<Rightarrow> Some (res_status r)
      | None \<Rightarrow> (case err of Some e \<Rightarrow> err_status e | None \<Rightarrow> None))"

text \<open>The listing operations and the field of the response body that carries their list.\<close>

fun listing_field :: "operation \<Rightarrow> string option" where
  "listing_field GetAccessKeys = Some ''accessKeys''"
| "listing_field GetApps = Some ''apps''"
| "listing_field GetDeployments = Some ''deployments''"
| "listing_field GetDeploymentKeys = Some ''deploymentKeys''"
| "listing_field _ = None"

section \<open>Concrete inputs\<close>

text \<open>
  The constructor of \<^verbatim>\<open>AccountManager\<close>: no agent and no account yet;
  \<^verbatim>\<open>_saveAuthedAgent\<close> is whether the client runs outside a browser.
\<close>

definition new_AccountManager :: "bool \<Rightarrow> string \<Rightarrow> client" where
  "new_AccountManager in_node url =
     \<lparr>authedAgent = None, saveAuthedAgent = in_node, account = JUndefined, serverUrl = url\<rparr>"

text \<open>
  A stand-in for \<^verbatim>\<open>JSON.stringify\<close> on concrete inputs, given by a table.
\<close>

definition stringify_table :: "(jsval \<times> string) list \<Rightarrow> jsval \<Rightarrow> string" where
  "stringify_table tbl v = (case map_of tbl v of Some s \<Rightarrow> s | None \<Rightarrow> [])"

text \<open>
  A stand-in for \<^verbatim>\<open>tryJSON\<close> on concrete inputs: the texts of the table parse to the
  values beside them, every other text is not JSON.
\<close>

definition tryJSON_table :: "(string \<times> jsval) list \<Rightarrow> string \<Rightarrow> jsval" where
  "tryJSON_table tbl s = (case map_of tbl s of Some v \<Rightarrow> v | None \<Rightarrow> JUndefined)"

section \<open>The command executor\<close>

text \<open>
  Modelled from the spec: the command executor (\<^verbatim>\<open>script/command-executor.ts\<close>) is not
  among the sources, only its test file is. The specification (4.2) says: a command that
  names its target performs a list call, filters by exact name match (first match) and
  raises a "not found" condition if no match exists; a destructive command requests
  interactive confirmation before proceeding, and declining produces a no-op with a
  cancellation message. The messages are those the tests expect.
\<close>

record resource =
  rid :: string
  rname :: string

text \<open>What the service holds: access keys, apps, and the deployments of each app id.\<close>

record sdk =
  sdk_accessKeys :: "resource list"
  sdk_apps :: "resource list"
  sdk_deployments :: "string \<Rightarrow> resource list"

datatype sdk_call =
    CallGetAccessKeys
  | CallGetApps
  | CallGetDeployments string
  | CallRemoveAccessKey string
  | CallRemoveApp string
  | CallRemoveDeployment string string

fun is_remove :: "sdk_call \<Rightarrow> bool" where
  "is_remove (CallRemoveAccessKey i) = True"
| "is_remove (CallRemoveApp i) = True"
| "is_remove (CallRemoveDeployment a i) = True"
| "is_remove _ = False"

datatype command =
    AccessKeyRemove string
  | AppRemove string
  | DeploymentRemove string string

text \<open>
  One run of a command: the SDK methods called, in order, whether the confirmation was
  requested, the messages logged, and whether the run failed with "not found".
\<close>

record run =
  sdk_calls :: "sdk_call list"
  asked :: bool
  logged :: "string list"
  not_found :: bool

text \<open>
  Modelled from the spec: the lookup of a name in a listing, absent with the executor;
  exact name equality, first match.
\<close>

fun find_id :: "resource list \<Rightarrow> string \<Rightarrow> string option" where
  "find_id [] name = None"
| "find_id (x # xs) name = (if rname x = name then Some (rid x) else find_id xs name)"

text \<open>
  Modelled from the spec: the end of a destructive command once its target is found,
  absent with the executor. It asks, then removes and reports, or reports the
  cancellation. \<open>wasConfirmed\<close> is the answer to the confirmation.
\<close>

definition confirm_remove :: "bool \<Rightarrow> sdk_call list \<Rightarrow> sdk_call \<Rightarrow> string \<Rightarrow> run" where
  "confirm_remove wasConfirmed listed removal message =
     (if wasConfirmed
      then \<lparr>sdk_calls = listed @ [removal], asked = True, logged = [message], not_found = False\<rparr>
      else \<lparr>sdk_calls = listed, asked = True, logged = [''Remove cancelled.''], not_found = False\<rparr>)"

text \<open>
  Modelled from the spec: the "not found" condition, absent with the executor; nothing is
  asked, removed or logged.
\<close>

definition fail_not_found :: "sdk_call list \<Rightarrow> run" where
  "fail_not_found listed = \<lparr>sdk_calls = listed, asked = False, logged = [], not_found = True\<rparr>"

text \<open>
  Modelled from the spec: \<^verbatim>\<open>execute\<close> of the command executor, absent from the sources,
  for the three destructive commands: list, find the id by name, confirm, remove.
\<close>

fun execute :: "sdk \<Rightarrow> bool \<Rightarrow> command \<Rightarrow> run" where
  "execute s wasConfirmed (AccessKeyRemove accessKeyName) =
     (case find_id (sdk_accessKeys s) accessKeyName of
        None \<Rightarrow> fail_not_found [CallGetAccessKeys]
      | Some i \<Rightarrow>
          confirm_remove wasConfirmed [CallGetAccessKeys] (CallRemoveAccessKey i)
            (''Removed access key '' @ quoted accessKeyName @ ''.''))"
| "execute s wasConfirmed (AppRemove appName) =
     (case find_id (sdk_apps s) appName of
        None \<Rightarrow> fail_not_found [CallGetApps]
      | Some a \<Rightarrow>
          confirm_remove wasConfirmed [CallGetApps] (CallRemoveApp a)
            (''Removed app '' @ quoted appName @ ''.''))"
| "execute s wasConfirmed (DeploymentRemove appName deploymentName) =
     (case find_id (sdk_apps s) appName of
        None \<Rightarrow> fail_not_found [CallGetApps]
      | Some a \<Rightarrow>
          (case find_id (sdk_deployments s a) deploymentName of
             None \<Rightarrow> fail_not_found [CallGetApps, CallGetDeployments a]
           | Some d \<Rightarrow>
               confirm_remove wasConfirmed [CallGetApps, CallGetDeployments a]
                 (CallRemoveDeployment a d)
                 (''Removed deployment '' @ quoted deploymentName @ '' from app ''
                    @ quoted appName @ ''.'')))"

text \<open>The stub of the test file: its access key, apps and deployments.\<close>

definition SdkStub :: sdk where
  "SdkStub =
     \<lparr>sdk_accessKeys = [\<lparr>rid = ''7'', rname = ''8''\<rparr>],
      sdk_apps = [\<lparr>rid = ''1'', rname = ''a''\<rparr>, \<lparr>rid = ''2'', rname = ''b''\<rparr>],
      sdk_deployments =
        (\<lambda>appId. [\<lparr>rid = ''3'', rname = ''Production''\<rparr>, \<lparr>rid = ''4'', rname = ''Staging''\<rparr>])\<rparr>"

section \<open>Properties\<close>

lemmas settle_defs = resolve_def reject_def no_call_def type_error_def

lemmas shape_defs = resolve_null_def resolve_parsed_def resolve_created_def resolve_field_def
  reject_not_ok_def

lemmas end_defs =
  loginWithAccessToken_end_def logout_end_def logout_rest_def isAuthenticated_end_def
  isAuthenticated_rest_def addAccessKey_end_def getAccessKey_end_def getAccessKeys_end_def
  removeAccessKey_end_def getAccountInfo_end_def updateAccountInfo_end_def getApps_end_def
  getApp_end_def addApp_end_def removeApp_end_def updateApp_end_def addDeployment_end_def
  getDeployments_end_def getDeployment_end_def updateDeployment_end_def
  removeDeployment_end_def addDeploymentKey_end_def getDeploymentKeys_end_def
  getDeploymentKey_end_def updateDeploymentKey_end_def deleteDeploymentKey_end_def
  addPackage_end_def getPackage_end_def

subsection \<open>Every operation settles its deferred once\<close>

text \<open>
  C1. For every operation and every completion of its round-trip, the deferred completes
  exactly once. It fails in \<^verbatim>\<open>addDeploymentKey\<close>, at the completion the claim names: on
  a response with no transport error whose flag \<^verbatim>\<open>ok\<close> is false, the callback calls
  neither \<^verbatim>\<open>resolve\<close> nor \<^verbatim>\<open>reject\<close> and returns, whatever the status, the text and
  the headers are.
\<close>

theorem addDeploymentKey_not_ok_never_settles:
  "addDeploymentKey_end tryJSON None
     (Some \<lparr>res_ok = False, res_status = s, res_text = t, res_header = h\<rparr>)
   = \<lparr>calls = [], threw = False\<rparr>"
  by (simp add: addDeploymentKey_end_def no_call_def)

text \<open>
  Every other operation calls exactly one of \<^verbatim>\<open>resolve\<close> and \<^verbatim>\<open>reject\<close>, once, on
  every completion that carries an error or a response, and \<^verbatim>\<open>logout\<close> after an error of
  status 401 when it carries a response.
\<close>

lemma other_operations_settle_once:
  assumes "op \<noteq> AddDeploymentKey" and "err \<noteq> None \<or> res \<noteq> None"
    and "op = Logout \<Longrightarrow> res \<noteq> None \<or> (\<exists>e. err = Some e \<and> err_status e \<noteq> Some 401)"
  shows "length (calls (snd (complete tryJSON op this err res))) = 1"
  using assms
  by (cases op; cases err; cases res)
     (auto simp: end_defs shape_defs settle_defs Let_def split: option.splits)

subsection \<open>The id of a created resource\<close>

lemma lastIndexOf_ge: "- 1 \<le> lastIndexOf s c"
  by (induction s) (auto simp: Let_def)

lemma lastIndexOf_none: "(lastIndexOf s c = - 1) = (c \<notin> set s)"
proof (induction s)
  case Nil
  show ?case by simp
next
  case (Cons x xs)
  have "- 1 \<le> lastIndexOf xs c" by (rule lastIndexOf_ge)
  then have "lastIndexOf xs c + 1 \<noteq> - 1" by arith
  with Cons show ?case by (auto simp: Let_def)
qed

lemma lastIndexOf_append: "c \<notin> set seg \<Longrightarrow> lastIndexOf (pre @ c # seg) c = int (length pre)"
  by (induction pre) (auto simp: Let_def lastIndexOf_none)

text \<open>\<open>trailing_segment\<close> is the substring after the last \<^verbatim>\<open>/\<close>.\<close>

lemma trailing_segment_append:
  assumes "CHR ''/'' \<notin> set seg"
  shows "trailing_segment (pre @ CHR ''/'' # seg) = Some seg"
proof -
  have "takeWhile (\<lambda>c. c \<noteq> CHR ''/'') (rev seg @ CHR ''/'' # rev pre)
          = takeWhile (\<lambda>c. c \<noteq> CHR ''/'') (rev seg)"
    by (rule takeWhile_tail) simp
  also have "\<dots> = rev seg"
    using assms by (auto simp: takeWhile_eq_all_conv)
  finally show ?thesis by (simp add: trailing_segment_def)
qed

lemma substr_trailing:
  assumes "CHR ''/'' \<in> set s"
  shows "trailing_segment s = Some (substr s (lastIndexOf s CHR ''/'' + 1))"
proof -
  obtain pre seg where s: "s = pre @ CHR ''/'' # seg" and n: "CHR ''/'' \<notin> set seg"
    using assms split_list_last by metis
  have "nat (int (length pre) + 1) = Suc (length pre)" by simp
  then show ?thesis unfolding s using n
    by (simp add: lastIndexOf_append trailing_segment_append substr_def del: of_nat_Suc)
qed

lemma created_resource_segment:
  "map_of (res_header r) ''location'' = Some (pre @ CHR ''/'' # seg) \<Longrightarrow> CHR ''/'' \<notin> set seg \<Longrightarrow>
   created_resource resource r = JObj (set_prop ''id'' (JStr seg) resource)"
  by (simp add: created_resource_def trailing_segment_append)

lemma created_resource_null:
  "map_of (res_header r) ''location'' = None \<or>
   (\<exists>location. map_of (res_header r) ''location'' = Some location \<and> CHR ''/'' \<notin> set location) \<Longrightarrow>
   created_resource resource r = JNull"
  by (auto simp add: created_resource_def trailing_segment_def)

lemma resolve_created_ok:
  assumes "res_ok r"
  shows "resolve_created tryJSON resource None (Some r) = resolve (created_resource resource r)"
proof (cases "map_of (res_header r) ''location''")
  case None
  with assms show ?thesis by (simp add: resolve_created_def created_resource_def)
next
  case (Some location)
  show ?thesis
  proof (cases "CHR ''/'' \<in> set location")
    case True
    then have "location \<noteq> []" by auto
    with True Some assms show ?thesis
      by (simp add: resolve_created_def created_resource_def lastIndexOf_none substr_trailing)
  next
    case False
    with Some assms show ?thesis
      by (simp add: resolve_created_def created_resource_def lastIndexOf_none
          trailing_segment_def)
  qed
qed

text \<open>
  C2 as stated: every create operation, \<^verbatim>\<open>addDeploymentKey\<close> among them, resolves on a
  successful response with the resource whose id is the trailing segment of the
  \<^verbatim>\<open>Location\<close> header. \<^verbatim>\<open>addDeploymentKey\<close> does not read the header: on a successful
  response with a \<^verbatim>\<open>Location\<close> header and an empty body it rejects.
\<close>

theorem addDeploymentKey_ignores_location:
  "calls (addDeploymentKey_end (tryJSON_table []) None
     (Some \<lparr>res_ok = True, res_status = 201, res_text = [],
            res_header = [(''location'', ''/apps/1/deployments/2/deploymentKeys/5'')]\<rparr>)) =
     [Reject (JObj [(''message'', JStr ''Could not parse response: ''),
                    (''statusCode'', JNum 201)])]"
  by (simp add: addDeploymentKey_end_def resolve_field_def tryJSON_table_def reject_def
      error_status_def)

text \<open>
  C2, amended. On every successful response with no transport error, \<^verbatim>\<open>addAccessKey\<close>,
  \<^verbatim>\<open>addApp\<close> and \<^verbatim>\<open>addDeployment\<close> resolve with the resource whose id is the substring
  of the \<^verbatim>\<open>Location\<close> header after its last \<^verbatim>\<open>/\<close>, and with \<^verbatim>\<open>null\<close> when the header is
  absent or has no \<^verbatim>\<open>/\<close>; \<^verbatim>\<open>addDeploymentKey\<close> resolves with the field
  \<^verbatim>\<open>deploymentKey\<close> of the parsed body instead.
\<close>

theorem create_resolves_with_location_id:
  assumes "res_ok r"
  shows "calls (addAccessKey_end tryJSON uuid description None (Some r)) =
           [Resolve (created_resource
              [(''id'', JNull), (''name'', JStr uuid), (''description'', opt_str description)] r)]
       \<and> calls (addApp_end tryJSON appName description None (Some r)) =
           [Resolve (created_resource
              [(''name'', JStr appName), (''description'', opt_str description)] r)]
       \<and> calls (addDeployment_end tryJSON name description None (Some r)) =
           [Resolve (created_resource
              [(''name'', JStr name), (''description'', opt_str description)] r)]
       \<and> (truthy (tryJSON (res_text r)) \<longrightarrow>
            calls (addDeploymentKey_end tryJSON None (Some r)) =
              [Resolve (get_prop (tryJSON (res_text r)) ''deploymentKey'')])"
  using assms
  by (simp add: addAccessKey_end_def addApp_end_def addDeployment_end_def
      addDeploymentKey_end_def resolve_created_ok resolve_field_def resolve_def)

theorem create_resolves_with_location_id_witness:
  "calls (addApp_end (tryJSON_table [(''{}'', JObj [])]) ''a'' None None
     (Some \<lparr>res_ok = True, res_status = 201, res_text = ''{}'',
            res_header = [(''location'', ''/apps/42'')]\<rparr>)) =
     [Resolve (JObj [(''name'', JStr ''a''), (''description'', JUndefined), (''id'', JStr ''42'')])]
   \<and> calls (addDeploymentKey_end (tryJSON_table [(''{}'', JObj [])]) None
     (Some \<lparr>res_ok = True, res_status = 201, res_text = ''{}'',
            res_header = [(''location'', ''/apps/42'')]\<rparr>)) = [Resolve JUndefined]"
  using create_resolves_with_location_id
    [of "\<lparr>res_ok = True, res_status = 201, res_text = ''{}'',
            res_header = [(''location'', ''/apps/42'')]\<rparr>"
        "tryJSON_table [(''{}'', JObj [])]" _ None "''a''"]
  by (simp add: created_resource_def trailing_segment_def tryJSON_table_def)

subsection \<open>Responses that are not ok\<close>

text \<open>
  C3 as stated: every operation, on every response whose flag \<^verbatim>\<open>ok\<close> is false, rejects
  with the parsed body when the text parses as JSON. \<^verbatim>\<open>isAuthenticated\<close> resolves with
  \<^verbatim>\<open>false\<close> on such a response, whatever its body; and a text that parses to a falsy
  value, such as \<^verbatim>\<open>0\<close>, is rejected wrapped in \<^verbatim>\<open>{message, statusCode}\<close>, not as the
  parsed value.
\<close>

theorem isAuthenticated_resolves_and_falsy_body_is_wrapped:
  "calls (snd (isAuthenticated_end (new_AccountManager True ''http://localhost:3000'') None
     (Some \<lparr>res_ok = False, res_status = 500, res_text = ''{}'', res_header = []\<rparr>)))
     = [Resolve (JBool False)]
   \<and> calls (removeApp_end (tryJSON_table [(''0'', JNum 0)]) None
     (Some \<lparr>res_ok = False, res_status = 500, res_text = ''0'', res_header = []\<rparr>))
     = [Reject (JObj [(''message'', JStr ''0''), (''statusCode'', JNum 500)])]"
  by (simp add: isAuthenticated_end_def isAuthenticated_rest_def new_AccountManager_def
      removeApp_end_def resolve_null_def reject_not_ok_def tryJSON_table_def
      resolve_def reject_def error_status_def)

text \<open>
  C3, amended. For every operation other than \<^verbatim>\<open>isAuthenticated\<close> and
  \<^verbatim>\<open>addDeploymentKey\<close>, and every response with no transport error whose flag \<^verbatim>\<open>ok\<close> is
  false: if the body text parses to a truthy value (any object or array, a non-empty
  string, a non-zero number, \<^verbatim>\<open>true\<close>), the operation rejects with exactly that value;
  otherwise (the text is not JSON, or parses to a falsy value) it rejects with
  \<^verbatim>\<open>{message: <the raw text>, statusCode: <the status>}\<close>.
\<close>

theorem not_ok_rejects_with_body:
  assumes "op \<noteq> IsAuthenticated" and "op \<noteq> AddDeploymentKey"
    and "\<not> res_ok r"
  shows "calls (snd (complete tryJSON op this None (Some r))) =
     [Reject (if truthy (tryJSON (res_text r)) then tryJSON (res_text r)
              else JObj [(''message'', JStr (res_text r)), (''statusCode'', JNum (res_status r))])]"
  using assms
  by (cases op)
     (simp_all add: end_defs shape_defs settle_defs error_status_def Let_def)

theorem not_ok_rejects_with_body_witness:
  "calls (snd (complete
      (tryJSON_table [(''{'' @ quoted ''message'' @ '':'' @ quoted ''No such app'' @ ''}'',
                       JObj [(''message'', JStr ''No such app'')])])
      RemoveApp (new_AccountManager True ''http://localhost:3000'') None
      (Some \<lparr>res_ok = False, res_status = 404,
             res_text = ''{'' @ quoted ''message'' @ '':'' @ quoted ''No such app'' @ ''}'',
             res_header = []\<rparr>)))
   = [Reject (JObj [(''message'', JStr ''No such app'')])]"
  using not_ok_rejects_with_body
    [of RemoveApp
        "\<lparr>res_ok = False, res_status = 404,
          res_text = ''{'' @ quoted ''message'' @ '':'' @ quoted ''No such app'' @ ''}'',
          res_header = []\<rparr>"
        "tryJSON_table [(''{'' @ quoted ''message'' @ '':'' @ quoted ''No such app'' @ ''}'',
                       JObj [(''message'', JStr ''No such app'')])]"
        "new_AccountManager True ''http://localhost:3000''"]
  by (simp add: tryJSON_table_def)

subsection \<open>Successful responses\<close>

text \<open>
  C4. For every operation that parses the body of a successful response, and every
  response with no transport error whose flag \<^verbatim>\<open>ok\<close> is true and whose text does not
  parse as JSON, the operation rejects with the message \<^verbatim>\<open>Could not parse response: \<close>
  followed by the raw text, and with the status of the response as \<^verbatim>\<open>statusCode\<close>.
\<close>

theorem unparseable_success_rejects:
  assumes "parses_success_body op" and "res_ok r" and "tryJSON (res_text r) = JUndefined"
  shows "calls (snd (complete tryJSON op this None (Some r))) =
     [Reject (JObj [(''message'', JStr (''Could not parse response: '' @ res_text r)),
                    (''statusCode'', JNum (res_status r))])]"
  using assms
  by (cases op)
     (simp_all add: end_defs shape_defs settle_defs error_status_def Let_def)

theorem unparseable_success_rejects_witness:
  "calls (snd (complete (tryJSON_table []) GetApps
      (new_AccountManager True ''http://localhost:3000'') None
      (Some \<lparr>res_ok = True, res_status = 200, res_text = ''<html>'', res_header = []\<rparr>)))
   = [Reject (JObj [(''message'', JStr ''Could not parse response: <html>''),
                    (''statusCode'', JNum 200)])]"
  using unparseable_success_rejects
    [of GetApps "\<lparr>res_ok = True, res_status = 200, res_text = ''<html>'', res_header = []\<rparr>"
        "tryJSON_table []" "new_AccountManager True ''http://localhost:3000''"]
  by (simp add: tryJSON_table_def)

text \<open>
  C6 as stated: every listing operation resolves with the list of its field on every
  successful response whose text parses as JSON. The text \<^verbatim>\<open>null\<close> parses as JSON, to
  a falsy value, and \<^verbatim>\<open>getApps\<close> rejects on it.
\<close>

theorem listing_rejects_falsy_json_body:
  "calls (getApps_end (tryJSON_table [(''null'', JNull)]) None
     (Some \<lparr>res_ok = True, res_status = 200, res_text = ''null'', res_header = []\<rparr>))
   = [Reject (JObj [(''message'', JStr ''Could not parse response: null''),
                    (''statusCode'', JNum 200)])]"
  by (simp add: getApps_end_def resolve_parsed_def resolve_field_def tryJSON_table_def
      reject_def error_status_def)

text \<open>
  C6, amended. For every listing operation and every successful response with no
  transport error: if the body text parses to a truthy value, the operation resolves
  with what that value has in the field of the operation, so with exactly the list an
  object carries there, in the same order and unmodified; otherwise (the text is not
  JSON, or parses to a falsy value) it rejects with the message
  \<^verbatim>\<open>Could not parse response: \<close> followed by the raw text, and the status.
\<close>

theorem listing_resolves_field_of_body:
  assumes "listing_field op = Some k" and "res_ok r"
  shows "calls (snd (complete tryJSON op this None (Some r))) =
           [if truthy (tryJSON (res_text r))
            then Resolve (get_prop (tryJSON (res_text r)) k)
            else Reject (JObj [(''message'', JStr (''Could not parse response: '' @ res_text r)),
                               (''statusCode'', JNum (res_status r))])]
       \<and> (\<forall>fs v. tryJSON (res_text r) = JObj fs \<and> map_of fs k = Some v \<longrightarrow>
            calls (snd (complete tryJSON op this None (Some r))) = [Resolve v])"
  using assms
  by (cases op)
     (simp_all add: end_defs shape_defs settle_defs error_status_def Let_def)

theorem listing_resolves_field_of_body_witness:
  "calls (snd (complete
      (tryJSON_table [(''{'' @ quoted ''apps'' @ '':[1,2]}'',
                       JObj [(''apps'', JArr [JNum 1, JNum 2])])])
      GetApps (new_AccountManager True ''http://localhost:3000'') None
      (Some \<lparr>res_ok = True, res_status = 200, res_text = ''{'' @ quoted ''apps'' @ '':[1,2]}'',
             res_header = []\<rparr>)))
   = [Resolve (JArr [JNum 1, JNum 2])]"
  using listing_resolves_field_of_body
    [of GetApps "''apps''"
        "\<lparr>res_ok = True, res_status = 200, res_text = ''{'' @ quoted ''apps'' @ '':[1,2]}'',
             res_header = []\<rparr>"
        "tryJSON_table [(''{'' @ quoted ''apps'' @ '':[1,2]}'',
                         JObj [(''apps'', JArr [JNum 1, JNum 2])])]"
        "new_AccountManager True ''http://localhost:3000''"]
  by (simp add: tryJSON_table_def)

subsection \<open>Login, logout and the session\<close>

text \<open>
  C5. For every access token that decodes from base64 to a text that does not parse as
  JSON, or parses to an object without the field \<^verbatim>\<open>providerName\<close> or without the field
  \<^verbatim>\<open>providerUniqueId\<close>, \<^verbatim>\<open>loginWithAccessToken\<close> rejects at once with
  \<^verbatim>\<open>{message: "Invalid access key."}\<close> and sends no request.
\<close>

theorem invalid_access_key_rejected:
  assumes "decode accessToken = Some decoded"
    and "tryJSON decoded = JUndefined \<or>
         (\<exists>fs. tryJSON decoded = JObj fs \<and>
            (map_of fs ''providerName'' = None \<or> map_of fs ''providerUniqueId'' = None))"
  shows "loginWithAccessToken decode tryJSON stringify this accessToken =
           Settled (Reject (JObj [(''message'', JStr ''Invalid access key.'')]))"
  using assms
  by (auto simp: loginWithAccessToken_def getLoginInfo_def error_message_def)

theorem invalid_access_key_rejected_witness:
  "loginWithAccessToken (map_of [(''e30='', ''{}'')]) (tryJSON_table [(''{}'', JObj [])])
     (stringify_table []) (new_AccountManager True ''http://localhost:3000'') ''e30=''
   = Settled (Reject (JObj [(''message'', JStr ''Invalid access key.'')]))"
  using invalid_access_key_rejected
    [of "map_of [(''e30='', ''{}'')]" "''e30=''" "''{}''" "tryJSON_table [(''{}'', JObj [])]"
        "stringify_table []" "new_AccountManager True ''http://localhost:3000''"]
  by (simp add: tryJSON_table_def)

text \<open>
  C8. On every completion of \<^verbatim>\<open>isAuthenticated\<close> that is a response with no transport
  error, or a transport error of status 401 (with or without a response), the operation
  resolves, with \<^verbatim>\<open>true\<close> exactly when the reported status is 200; so it resolves with
  \<^verbatim>\<open>false\<close>, and does not reject, when the reported status is 401.
\<close>

theorem isAuthenticated_resolves_status_200:
  assumes "err = None \<or> (\<exists>e. err = Some e \<and> err_status e = Some 401)"
    and "err \<noteq> None \<or> res \<noteq> None"
  shows "calls (snd (isAuthenticated_end this err res))
           = [Resolve (JBool (reported_status err res = Some 200))]
       \<and> (reported_status err res = Some 401 \<longrightarrow>
            calls (snd (isAuthenticated_end this err res)) = [Resolve (JBool False)])"
  using assms
  by (cases err; cases res)
     (auto simp: isAuthenticated_end_def isAuthenticated_rest_def reported_status_def
        resolve_def Let_def)

theorem isAuthenticated_resolves_status_200_witness:
  "calls (snd (isAuthenticated_end (new_AccountManager True ''http://localhost:3000'')
      (Some \<lparr>err_status = Some 401, err_message = ''Unauthorized''\<rparr>) None))
     = [Resolve (JBool False)]
   \<and> calls (snd (isAuthenticated_end (new_AccountManager True ''http://localhost:3000'') None
      (Some \<lparr>res_ok = False, res_status = 401, res_text = ''Unauthorized'', res_header = []\<rparr>)))
     = [Resolve (JBool False)]
   \<and> calls (snd (isAuthenticated_end (new_AccountManager True ''http://localhost:3000'') None
      (Some \<lparr>res_ok = True, res_status = 200, res_text = [], res_header = []\<rparr>)))
     = [Resolve (JBool True)]"
  using
    isAuthenticated_resolves_status_200
      [of "Some \<lparr>err_status = Some 401, err_message = ''Unauthorized''\<rparr>" None
          "new_AccountManager True ''http://localhost:3000''"]
    isAuthenticated_resolves_status_200
      [of None
          "Some \<lparr>res_ok = False, res_status = 401, res_text = ''Unauthorized'', res_header = []\<rparr>"
          "new_AccountManager True ''http://localhost:3000''"]
    isAuthenticated_resolves_status_200
      [of None "Some \<lparr>res_ok = True, res_status = 200, res_text = [], res_header = []\<rparr>"
          "new_AccountManager True ''http://localhost:3000''"]
  by (simp add: reported_status_def)

text \<open>On no completion at all does \<^verbatim>\<open>isAuthenticated\<close> resolve \<^verbatim>\<open>true\<close> at another status.\<close>

lemma isAuthenticated_true_only_at_200:
  "calls (snd (isAuthenticated_end this err res)) = [Resolve (JBool True)] \<Longrightarrow>
   reported_status err res = Some 200"
  by (cases err; cases res)
     (auto simp: isAuthenticated_end_def isAuthenticated_rest_def reported_status_def
        settle_defs Let_def split: if_splits)

text \<open>
  C9. Where the client saves its session (outside a browser), on every completion of
  \<^verbatim>\<open>loginWithAccessToken\<close> with a response and no transport error the stored agent
  becomes a fresh agent holding the cookies of that response, whatever agent was stored
  before; this is so also when the response is not ok and the operation rejects.
\<close>

theorem login_overwrites_agent_even_when_rejected:
  assumes "saveAuthedAgent this"
  shows "authedAgent (fst (loginWithAccessToken_end tryJSON this None (Some r)))
           = Some (saveCookies new_agent r)
       \<and> (\<not> res_ok r \<longrightarrow>
            calls (snd (loginWithAccessToken_end tryJSON this None (Some r)))
              = [Reject (if truthy (tryJSON (res_text r)) then tryJSON (res_text r)
                         else JObj [(''message'', JStr (res_text r)),
                                    (''statusCode'', JNum (res_status r))])])"
  using assms
  by (simp add: loginWithAccessToken_end_def reject_not_ok_def reject_def error_status_def
      Let_def)

theorem login_overwrites_agent_even_when_rejected_witness:
  "authedAgent (fst (loginWithAccessToken_end (tryJSON_table [])
      ((new_AccountManager True ''http://localhost:3000'')
         \<lparr>authedAgent := Some \<lparr>cookies_from =
            [\<lparr>res_ok = True, res_status = 200, res_text = [],
              res_header = [(''set-cookie'', ''sid=1'')]\<rparr>]\<rparr>\<rparr>)
      None
      (Some \<lparr>res_ok = False, res_status = 403, res_text = ''Forbidden'', res_header = []\<rparr>)))
     = Some \<lparr>cookies_from =
         [\<lparr>res_ok = False, res_status = 403, res_text = ''Forbidden'', res_header = []\<rparr>]\<rparr>
   \<and> calls (snd (loginWithAccessToken_end (tryJSON_table [])
      ((new_AccountManager True ''http://localhost:3000'')
         \<lparr>authedAgent := Some \<lparr>cookies_from =
            [\<lparr>res_ok = True, res_status = 200, res_text = [],
              res_header = [(''set-cookie'', ''sid=1'')]\<rparr>]\<rparr>\<rparr>)
      None
      (Some \<lparr>res_ok = False, res_status = 403, res_text = ''Forbidden'', res_header = []\<rparr>)))
     = [Reject (JObj [(''message'', JStr ''Forbidden''), (''statusCode'', JNum 403)])]"
  using login_overwrites_agent_even_when_rejected
    [of "(new_AccountManager True ''http://localhost:3000'')
         \<lparr>authedAgent := Some \<lparr>cookies_from =
            [\<lparr>res_ok = True, res_status = 200, res_text = [],
              res_header = [(''set-cookie'', ''sid=1'')]\<rparr>]\<rparr>\<rparr>"
        "tryJSON_table []"
        "\<lparr>res_ok = False, res_status = 403, res_text = ''Forbidden'', res_header = []\<rparr>"]
  by (simp add: new_AccountManager_def tryJSON_table_def saveCookies_def new_agent_def)

text \<open>
  C10. On every completion of \<^verbatim>\<open>logout\<close> other than a transport error whose status is
  not 401, the stored agent is cleared; this is so also when the response is not ok and
  \<^verbatim>\<open>logout\<close> rejects with the error body.
\<close>

theorem logout_clears_agent_even_when_rejected:
  assumes "err = None \<or> (\<exists>e. err = Some e \<and> err_status e = Some 401)"
  shows "authedAgent (fst (logout_end tryJSON this err res)) = None
       \<and> (\<forall>r. res = Some r \<and> \<not> res_ok r \<longrightarrow>
            calls (snd (logout_end tryJSON this err res))
              = [Reject (if truthy (tryJSON (res_text r)) then tryJSON (res_text r)
                         else JObj [(''message'', JStr (res_text r)),
                                    (''statusCode'', JNum (res_status r))])])"
  using assms
  by (auto simp: logout_end_def logout_rest_def reject_not_ok_def reject_def error_status_def
      Let_def)

theorem logout_clears_agent_even_when_rejected_witness:
  "authedAgent (fst (logout_end (tryJSON_table [])
      ((new_AccountManager True ''http://localhost:3000'')\<lparr>authedAgent := Some new_agent\<rparr>)
      None
      (Some \<lparr>res_ok = False, res_status = 500, res_text = ''Internal error'', res_header = []\<rparr>)))
     = None
   \<and> calls (snd (logout_end (tryJSON_table [])
      ((new_AccountManager True ''http://localhost:3000'')\<lparr>authedAgent := Some new_agent\<rparr>)
      None
      (Some \<lparr>res_ok = False, res_status = 500, res_text = ''Internal error'', res_header = []\<rparr>)))
     = [Reject (JObj [(''message'', JStr ''Internal error''), (''statusCode'', JNum 500)])]"
  using logout_clears_agent_even_when_rejected
    [of None "tryJSON_table []"
        "(new_AccountManager True ''http://localhost:3000'')\<lparr>authedAgent := Some new_agent\<rparr>"
        "Some \<lparr>res_ok = False, res_status = 500, res_text = ''Internal error'', res_header = []\<rparr>"]
  by (simp add: tryJSON_table_def)

text \<open>A transport error of another status leaves the client as it was.\<close>

lemma logout_transport_error_keeps_agent:
  "err = Some e \<Longrightarrow> err_status e \<noteq> Some 401 \<Longrightarrow> fst (logout_end tryJSON this err res) = this"
  by (simp add: logout_end_def)

subsection \<open>Declined confirmation\<close>

text \<open>
  C7. For every destructive command, if the confirmation is requested and declined, no
  remove method of the SDK is called and exactly the message \<^verbatim>\<open>Remove cancelled.\<close> is
  logged.
\<close>

theorem declined_confirmation_removes_nothing:
  assumes "\<not> wasConfirmed" and "asked (execute s wasConfirmed c)"
  shows "filter is_remove (sdk_calls (execute s wasConfirmed c)) = []
       \<and> logged (execute s wasConfirmed c) = [''Remove cancelled.'']"
  using assms
  by (cases c)
     (auto simp: confirm_remove_def fail_not_found_def split: option.splits)

theorem declined_confirmation_removes_nothing_witness:
  "asked (execute SdkStub False (DeploymentRemove ''a'' ''Staging''))
   \<and> sdk_calls (execute SdkStub False (DeploymentRemove ''a'' ''Staging''))
       = [CallGetApps, CallGetDeployments ''1'']
   \<and> logged (execute SdkStub False (DeploymentRemove ''a'' ''Staging'')) = [''Remove cancelled.'']"
  using declined_confirmation_removes_nothing [of False SdkStub "DeploymentRemove ''a'' ''Staging''"]
  by (simp add: SdkStub_def confirm_remove_def)

end
